theory Spec2Isabelle
  imports Main "HOL-Library.Sublist"
begin

section \<open>Python strings\<close>

text \<open>
  A Python \<open>str\<close> is modelled as a \<open>string\<close>: the list of the bytes of its UTF-8
  encoding. The literals the program searches for and removes are ASCII, so searching,
  replacing and slicing at the positions \<open>find\<close> returns agree with Python's.
\<close>

text \<open>\<open>s.replace(old, new)\<close>: every non-overlapping occurrence, scanning from the left. With an
  empty \<open>old\<close> Python puts \<open>new\<close> before every character and at the end.\<close>

function py_replace :: "string \<Rightarrow> string \<Rightarrow> string \<Rightarrow> string" where
  "py_replace [] new s = new @ concat (map (\<lambda>c. c # new) s)"
| "py_replace (a # old) new [] = []"
| "py_replace (a # old) new (c # cs) =
     (if prefix (a # old) (c # cs)
      then new @ py_replace (a # old) new (drop (length old) cs)
      else c # py_replace (a # old) new cs)"
  by pat_completeness auto
termination
  by (relation "measure (\<lambda>(old, new, s). length s)") auto

text \<open>\<open>s.find(sub)\<close>: the index of the first occurrence, or \<open>-1\<close>.\<close>

fun py_find :: "string \<Rightarrow> string \<Rightarrow> int" where
  "py_find [] sub = (if sub = [] then 0 else - 1)"
| "py_find (c # cs) sub =
     (if prefix sub (c # cs) then 0
      else (let r = py_find cs sub in if r < 0 then - 1 else r + 1))"

text \<open>Slice bounds: a negative index counts from the end, and every index is clamped to the
  string.\<close>

definition py_index :: "nat \<Rightarrow> int \<Rightarrow> nat" where
  "py_index n i = (if i < 0 then nat (max (i + int n) 0) else min (nat i) n)"

text \<open>\<open>s[i:j]\<close> and \<open>s[i:]\<close>.\<close>

definition py_slice :: "string \<Rightarrow> int \<Rightarrow> int \<Rightarrow> string" where
  "py_slice s i j = drop (py_index (length s) i) (take (py_index (length s) j) s)"

definition py_slice_from :: "string \<Rightarrow> int \<Rightarrow> string" where
  "py_slice_from s i = drop (py_index (length s) i) s"

text \<open>\<open>s.lower()\<close> and \<open>s.strip()\<close> on ASCII.\<close>

definition py_lower_char :: "char \<Rightarrow> char" where
  "py_lower_char c =
     (if (65::nat) \<le> of_char c \<and> of_char c \<le> (90::nat) then char_of (of_char c + (32::nat)) else c)"

definition py_lower :: "string \<Rightarrow> string" where
  "py_lower s = map py_lower_char s"

definition py_isspace :: "char \<Rightarrow> bool" where
  "py_isspace c =
     (let n = (of_char c :: nat) in (9 \<le> n \<and> n \<le> 13) \<or> (28 \<le> n \<and> n \<le> 32))"

definition py_strip :: "string \<Rightarrow> string" where
  "py_strip s = rev (dropWhile py_isspace (rev (dropWhile py_isspace s)))"

text \<open>\<open>s.startswith(p)\<close> is \<^const>\<open>prefix\<close>; \<open>s.split(sep)\<close> for a separator of one
  character.\<close>

fun py_split :: "char \<Rightarrow> string \<Rightarrow> string list" where
  "py_split sep [] = [[]]"
| "py_split sep (c # cs) =
     (if c = sep then [] # py_split sep cs
      else (case py_split sep cs of [] \<Rightarrow> [[c]] | p # ps \<Rightarrow> (c # p) # ps))"

section \<open>Paths and URLs\<close>

text \<open>\<open>os.path\<close> on a POSIX system: the separator is \<open>/\<close>.\<close>

definition os_path_sep :: string where
  "os_path_sep = ''/''"

definition os_path_join2 :: "string \<Rightarrow> string \<Rightarrow> string" where
  "os_path_join2 a b =
     (if prefix ''/'' b then b
      else if a = [] \<or> suffix ''/'' a then a @ b
      else a @ ''/'' @ b)"

definition os_path_join :: "string \<Rightarrow> string list \<Rightarrow> string" where
  "os_path_join a ps = foldl os_path_join2 a ps"

text \<open>\<open>os.path.dirname(p)\<close>: everything before the last \<open>/\<close>, without trailing slashes unless
  it is all slashes.\<close>

definition os_path_dirname :: "string \<Rightarrow> string" where
  "os_path_dirname p =
     (let hd_part = rev (dropWhile (\<lambda>c. c \<noteq> CHR ''/'') (rev p));
          stripped = rev (dropWhile (\<lambda>c. c = CHR ''/'') (rev hd_part))
      in if stripped = [] then hd_part else stripped)"

text \<open>\<open>urllib.parse.quote(s)\<close> with its default \<open>safe='/'\<close>: letters, digits and \<open>_.-~/\<close> stay,
  every other byte becomes \<open>%XX\<close> in upper-case hexadecimal.\<close>

definition url_always_safe :: "char \<Rightarrow> bool" where
  "url_always_safe c =
     (let n = (of_char c :: nat)
      in (65 \<le> n \<and> n \<le> 90) \<or> (97 \<le> n \<and> n \<le> 122) \<or> (48 \<le> n \<and> n \<le> 57)
         \<or> c = CHR ''_'' \<or> c = CHR ''.'' \<or> c = CHR ''-'' \<or> c = CHR ''~'')"

definition hex_digit :: "nat \<Rightarrow> char" where
  "hex_digit n = ''0123456789ABCDEF'' ! (n mod 16)"

definition quote_byte :: "char \<Rightarrow> string" where
  "quote_byte c =
     (if url_always_safe c \<or> c = CHR ''/'' then [c]
      else [CHR ''%'', hex_digit ((of_char c :: nat) div 16), hex_digit (of_char c :: nat)])"

definition parse_url :: "string \<Rightarrow> string" where
  "parse_url s = concat (map quote_byte s)"

section \<open>Constants of the module\<close>

text \<open>The cache lives under the working directory, which \<open>getcwd()\<close> reads when the module is
  loaded: it is a parameter of everything that builds a cache path.\<close>

definition CACHE_DIR :: "string \<Rightarrow> string" where
  "CACHE_DIR cwd = os_path_join cwd [''.mvn_cache'']"

definition CACHE_METADATA_DIR :: "string \<Rightarrow> string" where
  "CACHE_METADATA_DIR cwd = os_path_join (CACHE_DIR cwd) [''metadata'']"

definition CACHE_POM_DIR :: "string \<Rightarrow> string" where
  "CACHE_POM_DIR cwd = os_path_join (CACHE_DIR cwd) [''pom'']"


definition DEFAULT_REPO_BASE :: string where
  "DEFAULT_REPO_BASE = ''https://repo1.maven.org/maven2''"

definition DEFAULT_VERSION :: string where
  "DEFAULT_VERSION = ''release''"

definition DEFAULT_SCOPE :: string where
  "DEFAULT_SCOPE = ''compile''"

definition DEFAULT_OPTIONAL :: bool where
  "DEFAULT_OPTIONAL = False"

section \<open>URLs and cache paths of a coordinate\<close>

definition get_package_page_url :: "string \<Rightarrow> string \<Rightarrow> string \<Rightarrow> string" where
  "get_package_page_url repo_base groupId artifactId =
     (let groupId = py_replace ''.'' ''/'' groupId;
          groupId = parse_url groupId;
          artifactId = parse_url artifactId
      in repo_base @ ''/'' @ groupId @ ''/'' @ artifactId)"

definition quote_groupId_path :: "string \<Rightarrow> string" where
  "quote_groupId_path groupId =
     (let groupId = py_replace ''..'' [] groupId;
          groupId = py_replace ''.'' os_path_sep groupId;
          groupId = py_replace ''='' [] (py_replace ''?'' [] (py_replace '':'' [] groupId))
      in groupId)"

definition quote_artifactId_path :: "string \<Rightarrow> string" where
  "quote_artifactId_path artifactId =
     (let artifactId = py_replace ''..'' [] artifactId;
          artifactId = py_replace [CHR 0x5C] [] (py_replace ''/'' [] artifactId);
          artifactId = py_replace ''='' [] (py_replace ''?'' [] (py_replace '':'' [] artifactId))
      in artifactId)"

definition quote_version_path :: "string \<Rightarrow> string" where
  "quote_version_path version =
     (let version = py_replace [CHR 0x5C] [] (py_replace ''/'' [] (py_replace ''..'' [] version));
          version = py_replace ''='' [] (py_replace ''?'' [] (py_replace '':'' [] version))
      in version)"

definition get_metadata_cache_path :: "string \<Rightarrow> string \<Rightarrow> string \<Rightarrow> string" where
  "get_metadata_cache_path cwd groupId artifactId =
     (let groupId = quote_groupId_path groupId;
          artifactId = quote_artifactId_path artifactId
      in os_path_join (CACHE_METADATA_DIR cwd) [groupId, artifactId, ''maven-metadata.xml''])"

definition get_pom_cache_path :: "string \<Rightarrow> string \<Rightarrow> string \<Rightarrow> string \<Rightarrow> string" where
  "get_pom_cache_path cwd groupId artifactId version =
     (let groupId = quote_groupId_path groupId;
          artifactId = quote_artifactId_path artifactId;
          version = quote_version_path version
      in os_path_join (CACHE_POM_DIR cwd)
           [groupId, artifactId, artifactId @ ''-'' @ version @ ''.pom''])"


text \<open>\<open>tag_strip_namespace\<close>: \<open>tag.split("}")[1]\<close> raises \<open>IndexError\<close> when a tag that starts
  with \<open>{\<close> has no \<open>}\<close>.\<close>

definition tag_strip_namespace :: "string \<Rightarrow> string option" where
  "tag_strip_namespace tag =
     (if prefix ''{'' tag
      then (case py_split (CHR ''}'') tag of _ # t # _ \<Rightarrow> Some t | _ \<Rightarrow> None)
      else Some tag)"

section \<open>Exceptions\<close>

text \<open>
  The exceptions the modelled code can raise. An operation returns \<open>Inl\<close> the exception or
  \<open>Inr\<close> its value, next to the state it left behind where it has one.
\<close>

datatype py_error =
    HTTPError | URLError | ParseError | AttributeError | IndexError | TypeError
  | FileNotFoundError | FileExistsError | NotADirectoryError | IsADirectoryError

section \<open>Placeholder substitution\<close>

text \<open>
  The \<open>while\<close> loop of \<open>parse_property_value\<close>, with the loop variables \<open>text\<close> and \<open>idx\<close> as
  arguments. The loop may run forever, and then the value is \<open>None\<close>. \<open>end\<close> is
  \<open>text.find("}")\<close>: the search starts at the beginning of the text, not at \<open>idx\<close>.
  A dictionary may hold \<open>None\<close> under a key (\<open>get_dependencies\<close> stores \<open>self._version\<close>);
  concatenating it raises \<open>TypeError\<close>.
\<close>

partial_function (option) parse_property_loop ::
  "(string \<rightharpoonup> string option) \<Rightarrow> string \<Rightarrow> int \<Rightarrow> (py_error + string) option" where
  "parse_property_loop properties text idx =
     (if idx \<ge> 0 then
        (let end = py_find text ''}'';
             name = py_slice text (idx + 2) end;
             replacement = (case properties name of Some v \<Rightarrow> v | None \<Rightarrow> Some []);
             text_head = py_slice text 0 idx;
             text_tail = py_slice_from text (end + 1)
         in case replacement of
              None \<Rightarrow> Some (Inl TypeError)
            | Some r \<Rightarrow>
                (let text' = text_head @ r @ text_tail
                 in parse_property_loop properties text' (py_find text' ''${'')))
      else Some (Inr text))"

declare parse_property_loop.simps [code]

definition parse_property_value ::
  "(string \<rightharpoonup> string option) \<Rightarrow> string \<Rightarrow> (py_error + string) option" where
  "parse_property_value properties text = parse_property_loop properties text (py_find text ''${'')"



section \<open>The environment: files, network, parsed documents\<close>

text \<open>What \<open>urlopen\<close> does for a URL: a body, an \<open>HTTPError\<close> (the "not found" class), or any
  other transport failure.\<close>

datatype response = Body string | HTTP_failure | URL_failure

text \<open>An \<open>ElementTree\<close> element: its tag (\<open>{namespace}local\<close>), its text (or \<open>None\<close>) and its
  children.\<close>

datatype element = Element (tag: string) (etext: "string option") (children: "element list")

text \<open>What the program does not define and cannot change: the working directory, the remote
  repository, the XML parser (\<open>None\<close> is a \<open>ParseError\<close>), and Python's hash of a string and of
  \<open>None\<close>.\<close>

record env =
  cwd :: string
  urlopen :: "string \<Rightarrow> response"
  ET_fromstring :: "string \<Rightarrow> element option"
  str_hash :: "string \<Rightarrow> int"
  none_hash :: int

text \<open>What the program changes outside its objects: the files and directories, and the
  requests sent to the network, oldest first.\<close>

record world =
  files :: "string \<rightharpoonup> string"
  dirs :: "string set"
  requests :: "string list"

definition os_path_exists :: "world \<Rightarrow> string \<Rightarrow> bool" where
  "os_path_exists w p = (files w p \<noteq> None \<or> p \<in> dirs w)"

text \<open>The directories \<open>makedirs(d, exist_ok=True)\<close> makes sure of: \<open>d\<close> and what stands before
  each of its separators.\<close>

definition path_prefixes :: "string \<Rightarrow> string list" where
  "path_prefixes d = [take k d. k \<leftarrow> [1..<length d], d ! k = CHR ''/''] @ [d]"

definition makedirs :: "world \<Rightarrow> string \<Rightarrow> py_error + world" where
  "makedirs w d =
     (if files w d \<noteq> None then Inl FileExistsError
      else if list_ex (\<lambda>p. files w p \<noteq> None) (path_prefixes d) then Inl NotADirectoryError
      else Inr (w\<lparr>dirs := dirs w \<union> set (path_prefixes d)\<rparr>))"

text \<open>\<open>open(p, "wt").write(c)\<close> and \<open>open(p, "rt").read()\<close>.\<close>

definition write_file :: "world \<Rightarrow> string \<Rightarrow> string \<Rightarrow> py_error + world" where
  "write_file w p c =
     (if p \<in> dirs w then Inl IsADirectoryError
      else if os_path_dirname p \<notin> dirs w then Inl FileNotFoundError
      else Inr (w\<lparr>files := (files w)(p \<mapsto> c)\<rparr>))"

definition read_file :: "world \<Rightarrow> string \<Rightarrow> py_error + string" where
  "read_file w p =
     (case files w p of
        Some c \<Rightarrow> Inr c
      | None \<Rightarrow> if p \<in> dirs w then Inl IsADirectoryError else Inl FileNotFoundError)"

text \<open>\<open>fetch_url\<close> and \<open>fetch_file\<close>: one request, whatever its outcome.\<close>

definition fetch_url :: "env \<Rightarrow> world \<Rightarrow> string \<Rightarrow> world \<times> (py_error + string)" where
  "fetch_url e w url =
     (let w' = w\<lparr>requests := requests w @ [url]\<rparr>
      in case urlopen e url of
           Body c \<Rightarrow> (w', Inr c)
         | HTTP_failure \<Rightarrow> (w', Inl HTTPError)
         | URL_failure \<Rightarrow> (w', Inl URLError))"


subsection \<open>The queries on a parsed document\<close>

text \<open>\<open>{*}name\<close> matches a tag \<open>name\<close> in any namespace or in none.\<close>

definition tag_matches :: "string \<Rightarrow> string \<Rightarrow> bool" where
  "tag_matches name t = (t = name \<or> suffix (CHR ''}'' # name) t)"

text \<open>\<open>elem.iter()\<close>: the element and its descendants, in document order.\<close>

fun iter :: "element \<Rightarrow> element list" where
  "iter (Element t x cs) = Element t x cs # concat (map iter cs)"

text \<open>\<open>root.iterfind(".//{*}name")\<close>, \<open>root.find(".//{*}name")\<close> and \<open>elem.find("./{*}name")\<close>.\<close>

definition iterfind_descendants :: "string \<Rightarrow> element \<Rightarrow> element list" where
  "iterfind_descendants name root =
     filter (\<lambda>e. tag_matches name (tag e)) (concat (map iter (children root)))"

definition find_descendant :: "string \<Rightarrow> element \<Rightarrow> element option" where
  "find_descendant name root =
     (case iterfind_descendants name root of [] \<Rightarrow> None | e # _ \<Rightarrow> Some e)"

definition find_child :: "string \<Rightarrow> element \<Rightarrow> element option" where
  "find_child name elem =
     (case filter (\<lambda>e. tag_matches name (tag e)) (children elem) of [] \<Rightarrow> None | e # _ \<Rightarrow> Some e)"

text \<open>\<open>root.iterfind(".//{*}dependencies/{*}dependency")\<close>.\<close>

definition iterfind_dependencies :: "element \<Rightarrow> element list" where
  "iterfind_dependencies root =
     concat (map (\<lambda>d. filter (\<lambda>e. tag_matches ''dependency'' (tag e)) (children d))
               (iterfind_descendants ''dependencies'' root))"

section \<open>MavenPackageMeta\<close>

text \<open>
  An attribute \<open>_name\<close> of the source is the field \<open>name'\<close>. A package holds its
  \<open>MavenPackageMeta\<close> by value: the only field of it that ever changes is the text of the
  metadata document, which is also kept on disk.
\<close>

record MavenPackageMeta =
  groupId :: string
  artifactId :: string
  repo :: string
  base_url' :: string
  metadata_cache' :: string

definition MavenPackageMeta_init :: "string \<Rightarrow> string \<Rightarrow> string \<Rightarrow> MavenPackageMeta" where
  "MavenPackageMeta_init g a r =
     \<lparr>groupId = g, artifactId = a, repo = r,
      base_url' = get_package_page_url r g a, metadata_cache' = []\<rparr>"

text \<open>\<open>_get_metadata\<close>: the text in memory, else the file in the cache, else the network; then
  the parser.\<close>

definition MavenPackageMeta_parse_metadata ::
  "env \<Rightarrow> world \<Rightarrow> MavenPackageMeta \<Rightarrow> world \<times> MavenPackageMeta \<times> (py_error + element)" where
  "MavenPackageMeta_parse_metadata e w self =
     (w, self, case ET_fromstring e (metadata_cache' self) of
                 None \<Rightarrow> Inl ParseError | Some root \<Rightarrow> Inr root)"

definition MavenPackageMeta_get_metadata ::
  "env \<Rightarrow> world \<Rightarrow> MavenPackageMeta \<Rightarrow> world \<times> MavenPackageMeta \<times> (py_error + element)" where
  "MavenPackageMeta_get_metadata e w self =
     (let cache_path = get_metadata_cache_path (cwd e) (groupId self) (artifactId self)
      in if length (metadata_cache' self) > 0 then MavenPackageMeta_parse_metadata e w self
         else if os_path_exists w cache_path then
           (case read_file w cache_path of
              Inl err \<Rightarrow> (w, self, Inl err)
            | Inr c \<Rightarrow> MavenPackageMeta_parse_metadata e w (self\<lparr>metadata_cache' := c\<rparr>))
         else
           (let url = base_url' self @ ''/maven-metadata.xml''
            in case fetch_url e w url of
                 (w1, Inl err) \<Rightarrow> (w1, self, Inl err)
               | (w1, Inr content) \<Rightarrow>
                   if length content > 0 then
                     (let self1 = self\<lparr>metadata_cache' := content\<rparr>
                      in case makedirs w1 (os_path_dirname cache_path) of
                           Inl err \<Rightarrow> (w1, self1, Inl err)
                         | Inr w2 \<Rightarrow>
                             (case write_file w2 cache_path content of
                                Inl err \<Rightarrow> (w2, self1, Inl err)
                              | Inr w3 \<Rightarrow> MavenPackageMeta_parse_metadata e w3 self1))
                   else MavenPackageMeta_parse_metadata e w1 self))"

text \<open>The text of the first element of that name (which may be \<open>None\<close>), or \<open>None\<close> when there
  is no such element.\<close>

definition first_text :: "string \<Rightarrow> element \<Rightarrow> string option" where
  "first_text name root =
     (case iterfind_descendants name root of [] \<Rightarrow> None | elem # _ \<Rightarrow> etext elem)"

definition get_latest_version ::
  "env \<Rightarrow> world \<Rightarrow> MavenPackageMeta \<Rightarrow> world \<times> MavenPackageMeta \<times> (py_error + string option)" where
  "get_latest_version e w self =
     (case MavenPackageMeta_get_metadata e w self of
        (w', self', Inl err) \<Rightarrow> (w', self', Inl err)
      | (w', self', Inr root) \<Rightarrow> (w', self', Inr (first_text ''latest'' root)))"

definition get_release_version ::
  "env \<Rightarrow> world \<Rightarrow> MavenPackageMeta \<Rightarrow> world \<times> MavenPackageMeta \<times> (py_error + string option)" where
  "get_release_version e w self =
     (case MavenPackageMeta_get_metadata e w self of
        (w', self', Inl err) \<Rightarrow> (w', self', Inl err)
      | (w', self', Inr root) \<Rightarrow> (w', self', Inr (first_text ''release'' root)))"

text \<open>\<open>MavenPackageMeta.__hash__\<close> returns the sum of two hashes, an unbounded integer; the
  built-in \<open>hash\<close> then folds what \<open>__hash__\<close> returned into the range of a 64-bit CPython's
  \<open>Py_hash_t\<close>, and never returns \<open>-1\<close>.\<close>

definition MavenPackageMeta_hash :: "env \<Rightarrow> MavenPackageMeta \<Rightarrow> int" where
  "MavenPackageMeta_hash e self = str_hash e (groupId self) + str_hash e (artifactId self)"

definition py_hash_fold :: "int \<Rightarrow> int" where
  "py_hash_fold r =
     (let h = (if - (2 ^ 63) \<le> r \<and> r < 2 ^ 63 then r else sgn r * (\<bar>r\<bar> mod (2 ^ 61 - 1)))
      in if h = - 1 then - 2 else h)"

definition py_hash_meta :: "env \<Rightarrow> MavenPackageMeta \<Rightarrow> int" where
  "py_hash_meta e m = py_hash_fold (MavenPackageMeta_hash e m)"

definition py_hash_str_opt :: "env \<Rightarrow> string option \<Rightarrow> int" where
  "py_hash_str_opt e v = (case v of None \<Rightarrow> none_hash e | Some s \<Rightarrow> str_hash e s)"

section \<open>MavenPackage and MavenDependencyPackage\<close>

text \<open>\<open>_version\<close> may be \<open>None\<close>: the constructor accepts it, and resolving a symbolic version
  against a metadata document without the element stores it.\<close>

record MavenPackage =
  version' :: "string option"
  meta :: MavenPackageMeta
  pom_cache' :: string
  version_is_unsure' :: bool

record MavenDependencyPackage = MavenPackage +
  scope' :: "string option"
  optional' :: bool

text \<open>Any Python value an \<open>__eq__\<close> may be given: an instance of one of the three classes, or
  anything else.\<close>

datatype py_object =
    Meta_object MavenPackageMeta
  | Package_object MavenPackage
  | Dependency_object MavenDependencyPackage
  | Other_object

text \<open>\<open>MavenPackageMeta.__eq__\<close>: the second comparison is of \<open>self.artifactId\<close> with
  \<open>value.groupId\<close>.\<close>

definition MavenPackageMeta_eq :: "MavenPackageMeta \<Rightarrow> py_object \<Rightarrow> bool" where
  "MavenPackageMeta_eq self v =
     (case v of
        Meta_object m \<Rightarrow> (groupId self = groupId m) \<and> (artifactId self = groupId m)
      | _ \<Rightarrow> False)"

definition version_is_symbolic :: "string option \<Rightarrow> bool" where
  "version_is_symbolic v =
     (case v of
        None \<Rightarrow> True
      | Some s \<Rightarrow> py_strip (py_lower s) \<in> set [''latest'', ''release'', DEFAULT_VERSION, []])"

definition MavenPackage_init :: "MavenPackageMeta \<Rightarrow> string option \<Rightarrow> MavenPackage" where
  "MavenPackage_init m v =
     \<lparr>version' = v, meta = m, pom_cache' = [], version_is_unsure' = version_is_symbolic v\<rparr>"

definition MavenDependencyPackage_init ::
  "MavenPackageMeta \<Rightarrow> string option \<Rightarrow> MavenDependencyPackage" where
  "MavenDependencyPackage_init m v =
     \<lparr>version' = v, meta = m, pom_cache' = [], version_is_unsure' = version_is_symbolic v,
      scope' = Some DEFAULT_SCOPE, optional' = DEFAULT_OPTIONAL\<rparr>"

definition get_package :: "MavenPackageMeta \<Rightarrow> string option \<Rightarrow> MavenPackage" where
  "get_package self v = MavenPackage_init self v"

text \<open>\<open>_get_version\<close>: an unset or blank version becomes \<open>"release"\<close>; exactly \<open>"latest"\<close> and
  exactly \<open>"release"\<close> are replaced by what the metadata document says.\<close>

definition MavenPackage_get_version ::
  "env \<Rightarrow> world \<Rightarrow> 'a MavenPackage_scheme
     \<Rightarrow> world \<times> 'a MavenPackage_scheme \<times> (py_error + string option)" where
  "MavenPackage_get_version e w self =
     (let self1 = (case version' self of
                     None \<Rightarrow> self\<lparr>version' := Some DEFAULT_VERSION\<rparr>
                   | Some s \<Rightarrow> if length (py_strip s) \<le> 0
                              then self\<lparr>version' := Some DEFAULT_VERSION\<rparr> else self)
      in if version' self1 = Some ''latest'' then
           (case get_latest_version e w (meta self1) of
              (w', m', Inl err) \<Rightarrow> (w', self1\<lparr>meta := m'\<rparr>, Inl err)
            | (w', m', Inr v) \<Rightarrow> (w', self1\<lparr>meta := m', version' := v\<rparr>, Inr v))
         else if version' self1 = Some ''release'' then
           (case get_release_version e w (meta self1) of
              (w', m', Inl err) \<Rightarrow> (w', self1\<lparr>meta := m'\<rparr>, Inl err)
            | (w', m', Inr v) \<Rightarrow> (w', self1\<lparr>meta := m', version' := v\<rparr>, Inr v))
         else (w, self1, Inr (version' self1)))"

text \<open>An f-string writes \<open>None\<close> as the text \<open>None\<close>.\<close>

definition py_format :: "string option \<Rightarrow> string" where
  "py_format v = (case v of None \<Rightarrow> ''None'' | Some s \<Rightarrow> s)"

definition MavenPackage_get_package_file_url ::
  "env \<Rightarrow> world \<Rightarrow> 'a MavenPackage_scheme \<Rightarrow> string
     \<Rightarrow> world \<times> 'a MavenPackage_scheme \<times> (py_error + string)" where
  "MavenPackage_get_package_file_url e w self postfix =
     (case MavenPackage_get_version e w self of
        (w', self', Inl err) \<Rightarrow> (w', self', Inl err)
      | (w', self', Inr v) \<Rightarrow>
          (w', self', Inr (base_url' (meta self') @ ''/'' @ py_format v @ ''/''
                           @ artifactId (meta self') @ ''-'' @ py_format v @ postfix)))"

text \<open>\<open>MavenPackage.__eq__\<close>: \<open>and\<close> evaluates its second operand, and so resolves the two
  versions, only when the two \<open>meta\<close> compare equal. \<open>compare_versions\<close> is that second operand,
  for another package of either class.\<close>

definition compare_versions ::
  "env \<Rightarrow> world \<Rightarrow> 'a MavenPackage_scheme \<Rightarrow> 'b MavenPackage_scheme
     \<Rightarrow> world \<times> 'a MavenPackage_scheme \<times> 'b MavenPackage_scheme \<times> (py_error + bool)" where
  "compare_versions e w self p =
     (case MavenPackage_get_version e w self of
        (w1, self1, Inl err) \<Rightarrow> (w1, self1, p, Inl err)
      | (w1, self1, Inr v1) \<Rightarrow>
          (case MavenPackage_get_version e w1 p of
             (w2, p2, Inl err) \<Rightarrow> (w2, self1, p2, Inl err)
           | (w2, p2, Inr v2) \<Rightarrow> (w2, self1, p2, Inr (v1 = v2))))"

definition MavenPackage_eq ::
  "env \<Rightarrow> world \<Rightarrow> 'a MavenPackage_scheme \<Rightarrow> py_object
     \<Rightarrow> world \<times> 'a MavenPackage_scheme \<times> py_object \<times> (py_error + bool)" where
  "MavenPackage_eq e w self v =
     (case v of
        Package_object p \<Rightarrow>
          if MavenPackageMeta_eq (meta self) (Meta_object (meta p)) then
            (case compare_versions e w self p of
               (w', self', p', r) \<Rightarrow> (w', self', Package_object p', r))
          else (w, self, v, Inr False)
      | Dependency_object p \<Rightarrow>
          if MavenPackageMeta_eq (meta self) (Meta_object (meta p)) then
            (case compare_versions e w self p of
               (w', self', p', r) \<Rightarrow> (w', self', Dependency_object p', r))
          else (w, self, v, Inr False)
      | _ \<Rightarrow> (w, self, v, Inr False))"

text \<open>\<open>MavenPackage.__hash__\<close>, and the built-in \<open>hash\<close> of a package.\<close>

definition MavenPackage_hash ::
  "env \<Rightarrow> world \<Rightarrow> 'a MavenPackage_scheme
     \<Rightarrow> world \<times> 'a MavenPackage_scheme \<times> (py_error + int)" where
  "MavenPackage_hash e w self =
     (case MavenPackage_get_version e w self of
        (w', self', Inl err) \<Rightarrow> (w', self', Inl err)
      | (w', self', Inr v) \<Rightarrow>
          (w', self', Inr (py_hash_meta e (meta self) + py_hash_str_opt e v)))"

definition py_hash_package ::
  "env \<Rightarrow> world \<Rightarrow> 'a MavenPackage_scheme
     \<Rightarrow> world \<times> 'a MavenPackage_scheme \<times> (py_error + int)" where
  "py_hash_package e w self =
     (case MavenPackage_hash e w self of
        (w', self', Inl err) \<Rightarrow> (w', self', Inl err)
      | (w', self', Inr h) \<Rightarrow> (w', self', Inr (py_hash_fold h)))"

text \<open>\<open>_get_pom\<close>: as \<open>_get_metadata\<close>, for the descriptor of the resolved version. A version
  \<open>None\<close> makes \<open>_quote_version_path\<close> raise.\<close>

definition MavenPackage_parse_pom ::
  "env \<Rightarrow> world \<Rightarrow> 'a MavenPackage_scheme
     \<Rightarrow> world \<times> 'a MavenPackage_scheme \<times> (py_error + element)" where
  "MavenPackage_parse_pom e w self =
     (w, self, case ET_fromstring e (pom_cache' self) of
                 None \<Rightarrow> Inl ParseError | Some root \<Rightarrow> Inr root)"

definition MavenPackage_get_pom ::
  "env \<Rightarrow> world \<Rightarrow> 'a MavenPackage_scheme
     \<Rightarrow> world \<times> 'a MavenPackage_scheme \<times> (py_error + element)" where
  "MavenPackage_get_pom e w self =
     (case MavenPackage_get_version e w self of
        (w1, self1, Inl err) \<Rightarrow> (w1, self1, Inl err)
      | (w1, self1, Inr None) \<Rightarrow> (w1, self1, Inl AttributeError)
      | (w1, self1, Inr (Some v)) \<Rightarrow>
          (let cache_path =
                 get_pom_cache_path (cwd e) (groupId (meta self1)) (artifactId (meta self1)) v
           in if length (pom_cache' self1) > 0 then MavenPackage_parse_pom e w1 self1
              else if os_path_exists w1 cache_path then
                (case read_file w1 cache_path of
                   Inl err \<Rightarrow> (w1, self1, Inl err)
                 | Inr c \<Rightarrow> MavenPackage_parse_pom e w1 (self1\<lparr>pom_cache' := c\<rparr>))
              else
                (case MavenPackage_get_package_file_url e w1 self1 ''.pom'' of
                   (w2, self2, Inl err) \<Rightarrow> (w2, self2, Inl err)
                 | (w2, self2, Inr url) \<Rightarrow>
                     (case fetch_url e w2 url of
                        (w3, Inl err) \<Rightarrow> (w3, self2, Inl err)
                      | (w3, Inr content) \<Rightarrow>
                          if length content > 0 then
                            (let self3 = self2\<lparr>pom_cache' := content\<rparr>
                             in case makedirs w3 (os_path_dirname cache_path) of
                                  Inl err \<Rightarrow> (w3, self3, Inl err)
                                | Inr w4 \<Rightarrow>
                                    (case write_file w4 cache_path content of
                                       Inl err \<Rightarrow> (w4, self3, Inl err)
                                     | Inr w5 \<Rightarrow> MavenPackage_parse_pom e w5 self3))
                          else MavenPackage_parse_pom e w3 self2))))"

subsection \<open>get_dependencies\<close>

text \<open>The loop over the \<open>properties\<close> element and its descendants:
  \<open>value = prop.text.strip() if prop.text else ""\<close>.\<close>

definition property_text :: "element \<Rightarrow> string" where
  "property_text prop =
     (case etext prop of None \<Rightarrow> [] | Some t \<Rightarrow> if t = [] then [] else py_strip t)"

fun collect_properties ::
  "(string \<rightharpoonup> string option) \<Rightarrow> element list \<Rightarrow> py_error + (string \<rightharpoonup> string option)" where
  "collect_properties properties [] = Inr properties"
| "collect_properties properties (prop # rest) =
     (case tag_strip_namespace (tag prop) of
        None \<Rightarrow> Inl IndexError
      | Some t \<Rightarrow> collect_properties (properties(t \<mapsto> Some (property_text prop))) rest)"

text \<open>\<open>dep.find("./{*}name").text\<close>, given to \<open>parse_property_value\<close>: a missing element and a
  text \<open>None\<close> both raise \<open>AttributeError\<close>.\<close>

definition substituted_child ::
  "(string \<rightharpoonup> string option) \<Rightarrow> string \<Rightarrow> element \<Rightarrow> (py_error + string) option" where
  "substituted_child properties name dep =
     (case find_child name dep of
        None \<Rightarrow> Some (Inl AttributeError)
      | Some el \<Rightarrow>
          (case etext el of
             None \<Rightarrow> Some (Inl AttributeError)
           | Some t \<Rightarrow> parse_property_value properties t))"

text \<open>Sequencing of steps that may raise or never return.\<close>

definition and_then ::
  "(py_error + 'a) option \<Rightarrow> ('a \<Rightarrow> (py_error + 'b) option) \<Rightarrow> (py_error + 'b) option" where
  "and_then m f = (case m of None \<Rightarrow> None | Some (Inl err) \<Rightarrow> Some (Inl err) | Some (Inr x) \<Rightarrow> f x)"

text \<open>The version of a dependency entry: the substituted \<open>version\<close> element when there is one,
  else \<open>self._version\<close> when the substituted group is the package's own, else
  \<open>DEFAULT_VERSION\<close>.\<close>

definition dependency_version ::
  "(string \<rightharpoonup> string option) \<Rightarrow> 'a MavenPackage_scheme \<Rightarrow> string \<Rightarrow> element
     \<Rightarrow> (py_error + string option) option" where
  "dependency_version properties self dep_groupId dep =
     (if find_child ''version'' dep \<noteq> None then
        and_then (substituted_child properties ''version'' dep) (\<lambda>v. Some (Inr (Some v)))
      else if dep_groupId = groupId (meta self) then Some (Inr (version' self))
      else Some (Inr (Some DEFAULT_VERSION)))"

text \<open>The body of the loop over the dependency entries.\<close>

definition read_dependency ::
  "(string \<rightharpoonup> string option) \<Rightarrow> 'a MavenPackage_scheme \<Rightarrow> element
     \<Rightarrow> (py_error + MavenDependencyPackage) option" where
  "read_dependency properties self dep =
     and_then (substituted_child properties ''groupId'' dep) (\<lambda>dep_groupId.
     and_then (substituted_child properties ''artifactId'' dep) (\<lambda>dep_artifactId.
     and_then (dependency_version properties self dep_groupId dep) (\<lambda>v.
       (let pkg = MavenDependencyPackage_init
                    (MavenPackageMeta_init dep_groupId dep_artifactId (repo (meta self))) v;
            pkg = pkg\<lparr>scope' := Some DEFAULT_SCOPE\<rparr>;
            pkg = (case find_child ''scope'' dep of
                     None \<Rightarrow> pkg | Some el \<Rightarrow> pkg\<lparr>scope' := etext el\<rparr>)
        in case find_child ''optional'' dep of
             None \<Rightarrow> Some (Inr pkg)
           | Some el \<Rightarrow>
               (case etext el of
                  None \<Rightarrow> Some (Inl AttributeError)
                | Some t \<Rightarrow> Some (Inr (pkg\<lparr>optional' := (py_lower t = ''true'')\<rparr>)))))))"

fun read_dependencies ::
  "(string \<rightharpoonup> string option) \<Rightarrow> 'a MavenPackage_scheme \<Rightarrow> element list
     \<Rightarrow> (py_error + MavenDependencyPackage list) option" where
  "read_dependencies properties self [] = Some (Inr [])"
| "read_dependencies properties self (dep # rest) =
     and_then (read_dependency properties self dep) (\<lambda>pkg.
     and_then (read_dependencies properties self rest) (\<lambda>lst. Some (Inr (pkg # lst))))"

definition project_properties ::
  "'a MavenPackage_scheme \<Rightarrow> element \<Rightarrow> py_error + (string \<rightharpoonup> string option)" where
  "project_properties self root =
     (let properties = [''project.version'' \<mapsto> version' self,
                        ''project.groupId'' \<mapsto> Some (groupId (meta self)),
                        ''project.artifactId'' \<mapsto> Some (artifactId (meta self))]
      in case find_descendant ''properties'' root of
           None \<Rightarrow> Inr properties
         | Some ps \<Rightarrow> collect_properties properties (iter ps))"

definition get_dependencies ::
  "env \<Rightarrow> world \<Rightarrow> 'a MavenPackage_scheme
     \<Rightarrow> (world \<times> 'a MavenPackage_scheme \<times> (py_error + MavenDependencyPackage list)) option" where
  "get_dependencies e w self =
     (case MavenPackage_get_pom e w self of
        (w1, self1, Inl err) \<Rightarrow> Some (w1, self1, Inl err)
      | (w1, self1, Inr root) \<Rightarrow>
          (case project_properties self1 root of
             Inl err \<Rightarrow> Some (w1, self1, Inl err)
           | Inr properties \<Rightarrow>
               (case read_dependencies properties self1 (iterfind_dependencies root) of
                  None \<Rightarrow> None
                | Some r \<Rightarrow> Some (w1, self1, r))))"

subsection \<open>asDependencyPackage and cache_jar\<close>

text \<open>\<open>asDependencyPackage\<close> builds a package and has no \<open>return\<close>: its value is Python's
  \<open>None\<close>.\<close>

definition asDependencyPackage ::
  "'a MavenPackage_scheme \<Rightarrow> bool \<Rightarrow> string \<Rightarrow> MavenDependencyPackage option" where
  "asDependencyPackage self opt sc =
     (let pkg = MavenDependencyPackage_init (meta self) (version' self);
          pkg = pkg\<lparr>scope' := Some sc\<rparr>;
          pkg = pkg\<lparr>optional' := opt\<rparr>
      in None)"


section \<open>The visited sets and the dependency walk\<close>

text \<open>
  A Python \<open>set\<close> of packages: its entries in insertion order, each with the hash it was
  stored under. A lookup compares the key only with entries of the same hash, in insertion
  order, and stops at the first that is equal. An entry holds the object as it was when
  it was added. The key of every lookup of the walk is a package that \<open>get_dependencies\<close>
  has just built, so it is never the same object as an entry, and what decides is \<open>==\<close>.
\<close>

type_synonym py_set = "(int \<times> py_object) list"

text \<open>\<open>entry == key\<close> for a key of class \<open>MavenDependencyPackage\<close>. When the entry is a plain
  \<open>MavenPackage\<close>, the key's class is a proper subclass of the entry's and Python asks the
  key first: \<open>key.__eq__(entry)\<close>. When the entry is a \<open>MavenDependencyPackage\<close> too, it is
  \<open>entry.__eq__(key)\<close>. Anything else is not equal to a package.\<close>

definition the_dependency :: "py_object \<Rightarrow> MavenDependencyPackage \<Rightarrow> MavenDependencyPackage" where
  "the_dependency v d = (case v of Dependency_object x \<Rightarrow> x | _ \<Rightarrow> d)"

definition entry_equals_key ::
  "env \<Rightarrow> world \<Rightarrow> py_object \<Rightarrow> MavenDependencyPackage
     \<Rightarrow> world \<times> py_object \<times> MavenDependencyPackage \<times> (py_error + bool)" where
  "entry_equals_key e w entry key =
     (case entry of
        Package_object p \<Rightarrow>
          (case MavenPackage_eq e w key entry of (w', key', entry', r) \<Rightarrow> (w', entry', key', r))
      | Dependency_object p \<Rightarrow>
          (case MavenPackage_eq e w p (Dependency_object key) of
             (w', p', key', r) \<Rightarrow> (w', Dependency_object p', the_dependency key' key, r))
      | _ \<Rightarrow> (w, entry, key, Inr False))"

fun py_set_lookup ::
  "env \<Rightarrow> world \<Rightarrow> py_set \<Rightarrow> int \<Rightarrow> MavenDependencyPackage
     \<Rightarrow> world \<times> py_set \<times> MavenDependencyPackage \<times> (py_error + bool)" where
  "py_set_lookup e w [] h key = (w, [], key, Inr False)"
| "py_set_lookup e w ((h', entry) # rest) h key =
     (if h' = h then
        (case entry_equals_key e w entry key of
           (w1, entry1, key1, Inl err) \<Rightarrow> (w1, (h', entry1) # rest, key1, Inl err)
         | (w1, entry1, key1, Inr found) \<Rightarrow>
             if found then (w1, (h', entry1) # rest, key1, Inr True)
             else (case py_set_lookup e w1 rest h key1 of
                     (w2, rest2, key2, r) \<Rightarrow> (w2, (h', entry1) # rest2, key2, r)))
      else (case py_set_lookup e w rest h key of
              (w2, rest2, key2, r) \<Rightarrow> (w2, (h', entry) # rest2, key2, r)))"

text \<open>\<open>key in s\<close> and \<open>s.add(key)\<close>: both hash the key, which resolves its version.\<close>

definition py_set_contains ::
  "env \<Rightarrow> world \<Rightarrow> py_set \<Rightarrow> MavenDependencyPackage
     \<Rightarrow> world \<times> py_set \<times> MavenDependencyPackage \<times> (py_error + bool)" where
  "py_set_contains e w s key =
     (case py_hash_package e w key of
        (w1, key1, Inl err) \<Rightarrow> (w1, s, key1, Inl err)
      | (w1, key1, Inr h) \<Rightarrow> py_set_lookup e w1 s h key1)"

definition py_set_add ::
  "env \<Rightarrow> world \<Rightarrow> py_set \<Rightarrow> MavenDependencyPackage
     \<Rightarrow> world \<times> py_set \<times> MavenDependencyPackage \<times> (py_error + unit)" where
  "py_set_add e w s key =
     (case py_hash_package e w key of
        (w1, key1, Inl err) \<Rightarrow> (w1, s, key1, Inl err)
      | (w1, key1, Inr h) \<Rightarrow>
          (case py_set_lookup e w1 s h key1 of
             (w2, s2, key2, Inl err) \<Rightarrow> (w2, s2, key2, Inl err)
           | (w2, s2, key2, Inr found) \<Rightarrow>
               if found then (w2, s2, key2, Inr ())
               else (w2, s2 @ [(h, Dependency_object key2)], key2, Inr ())))"

text \<open>\<open>__repr__\<close>, which \<open>print\<close> writes.\<close>

definition MavenPackageMeta_repr :: "MavenPackageMeta \<Rightarrow> string" where
  "MavenPackageMeta_repr self =
     (if repo self = DEFAULT_REPO_BASE
      then ''MavenPackageMeta('' @ [CHR 0x27] @ groupId self @ [CHR 0x27] @ '', '' @ [CHR 0x27]
           @ artifactId self @ [CHR 0x27] @ '')''
      else ''MavenPackageMeta('' @ [CHR 0x27] @ groupId self @ [CHR 0x27] @ '', '' @ [CHR 0x27]
           @ artifactId self @ [CHR 0x27] @ '', '' @ [CHR 0x27] @ repo self @ [CHR 0x27] @ '')'')"

definition MavenPackage_repr :: "'a MavenPackage_scheme \<Rightarrow> string" where
  "MavenPackage_repr self =
     ''MavenPackage('' @ MavenPackageMeta_repr (meta self) @ '', '' @ [CHR 0x27]
     @ py_format (version' self) @ [CHR 0x27] @ '')''"

text \<open>
  The state of a walk. The parameter \<open>processed\<close> of \<open>dump_dependencies\<close> and of
  \<open>walk_dependencies\<close> names a set object: the one the caller passed, or the default of the
  function, which Python creates once, when the function is defined, and hands to every
  call that passes none. \<open>stdout\<close> holds the lines printed so far.
\<close>

datatype set_ref = Caller_set | Default_set

record walk_state =
  world_of :: world
  caller_set :: py_set
  default_set :: py_set
  stdout :: "string list"

definition get_set :: "walk_state \<Rightarrow> set_ref \<Rightarrow> py_set" where
  "get_set st r = (case r of Caller_set \<Rightarrow> caller_set st | Default_set \<Rightarrow> default_set st)"

definition put_set :: "walk_state \<Rightarrow> set_ref \<Rightarrow> py_set \<Rightarrow> walk_state" where
  "put_set st r s =
     (case r of Caller_set \<Rightarrow> st\<lparr>caller_set := s\<rparr> | Default_set \<Rightarrow> st\<lparr>default_set := s\<rparr>)"

text \<open>
  \<open>dump_dependencies\<close>, with fuel for the depth of the recursion: \<open>None\<close> is a call that
  has not returned within it (or never returns, inside \<open>get_dependencies\<close>).
  \<open>dump_dependencies_loop\<close> is the \<open>for\<close> loop over the dependencies. The recursive call is
  \<open>dump_dependencies(dep, indent + 1)\<close>: it passes no \<open>processed\<close>, so the callee works on
  the default set.
\<close>

fun dump_dependencies ::
  "nat \<Rightarrow> env \<Rightarrow> walk_state \<Rightarrow> MavenDependencyPackage \<Rightarrow> nat \<Rightarrow> set_ref
     \<Rightarrow> (walk_state \<times> MavenDependencyPackage \<times> (py_error + unit)) option"
and dump_dependencies_loop ::
  "nat \<Rightarrow> env \<Rightarrow> walk_state \<Rightarrow> MavenDependencyPackage list \<Rightarrow> nat \<Rightarrow> set_ref
     \<Rightarrow> (walk_state \<times> (py_error + unit)) option" where
  "dump_dependencies 0 e st pkg indent processed = None"
| "dump_dependencies (Suc n) e st pkg indent processed =
     (case get_dependencies e (world_of st) pkg of
        None \<Rightarrow> None
      | Some (w1, pkg1, Inl err) \<Rightarrow> Some (st\<lparr>world_of := w1\<rparr>, pkg1, Inl err)
      | Some (w1, pkg1, Inr deps) \<Rightarrow>
          (case dump_dependencies_loop n e (st\<lparr>world_of := w1\<rparr>) deps indent processed of
             None \<Rightarrow> None
           | Some (st2, r) \<Rightarrow> Some (st2, pkg1, r)))"
| "dump_dependencies_loop n e st [] indent processed = Some (st, Inr ())"
| "dump_dependencies_loop n e st (dep # rest) indent processed =
     (case scope' dep of
        None \<Rightarrow> Some (st, Inl AttributeError)
      | Some sc \<Rightarrow>
          if py_lower sc = ''compile'' \<and> \<not> optional' dep then
            (case py_set_contains e (world_of st) (get_set st processed) dep of
               (w1, s1, dep1, Inl err) \<Rightarrow>
                 Some (put_set (st\<lparr>world_of := w1\<rparr>) processed s1, Inl err)
             | (w1, s1, dep1, Inr found) \<Rightarrow>
                 if found then
                   dump_dependencies_loop n e (put_set (st\<lparr>world_of := w1\<rparr>) processed s1)
                     rest indent processed
                 else
                   (let st1 = put_set (st\<lparr>world_of := w1\<rparr>) processed s1;
                        st2 = st1\<lparr>stdout := stdout st1
                                @ [concat (replicate indent ''    '') @ MavenPackage_repr dep1]\<rparr>
                    in case py_set_add e (world_of st2) (get_set st2 processed) dep1 of
                         (w3, s3, dep3, Inl err) \<Rightarrow>
                           Some (put_set (st2\<lparr>world_of := w3\<rparr>) processed s3, Inl err)
                       | (w3, s3, dep3, Inr u) \<Rightarrow>
                           (case dump_dependencies n e (put_set (st2\<lparr>world_of := w3\<rparr>) processed s3)
                                   dep3 (indent + 1) Default_set of
                              None \<Rightarrow> None
                            | Some (st4, dep4, Inl err) \<Rightarrow> Some (st4, Inl err)
                            | Some (st4, dep4, Inr u') \<Rightarrow>
                                dump_dependencies_loop n e st4 rest indent processed)))
          else dump_dependencies_loop n e st rest indent processed)"

text \<open>A call of \<open>dump_dependencies\<close> on a package of either class, as \<open>main\<close> makes it on
  a plain \<open>MavenPackage\<close>: the body above, with the loop and its recursive calls.\<close>

definition dump_dependencies_of ::
  "nat \<Rightarrow> env \<Rightarrow> walk_state \<Rightarrow> 'a MavenPackage_scheme \<Rightarrow> nat \<Rightarrow> set_ref
     \<Rightarrow> (walk_state \<times> 'a MavenPackage_scheme \<times> (py_error + unit)) option" where
  "dump_dependencies_of fuel e st pkg indent processed =
     (case fuel of
        0 \<Rightarrow> None
      | Suc n \<Rightarrow>
          (case get_dependencies e (world_of st) pkg of
             None \<Rightarrow> None
           | Some (w1, pkg1, Inl err) \<Rightarrow> Some (st\<lparr>world_of := w1\<rparr>, pkg1, Inl err)
           | Some (w1, pkg1, Inr deps) \<Rightarrow>
               (case dump_dependencies_loop n e (st\<lparr>world_of := w1\<rparr>) deps indent processed of
                  None \<Rightarrow> None
                | Some (st2, r) \<Rightarrow> Some (st2, pkg1, r))))"

text \<open>\<open>walk_dependencies\<close>: the same walk without the two \<open>print\<close> calls, and with a default
  set of its own.\<close>

fun walk_dependencies ::
  "nat \<Rightarrow> env \<Rightarrow> walk_state \<Rightarrow> MavenDependencyPackage \<Rightarrow> nat \<Rightarrow> set_ref
     \<Rightarrow> (walk_state \<times> MavenDependencyPackage \<times> (py_error + unit)) option"
and walk_dependencies_loop ::
  "nat \<Rightarrow> env \<Rightarrow> walk_state \<Rightarrow> MavenDependencyPackage list \<Rightarrow> nat \<Rightarrow> set_ref
     \<Rightarrow> (walk_state \<times> (py_error + unit)) option" where
  "walk_dependencies 0 e st pkg indent processed = None"
| "walk_dependencies (Suc n) e st pkg indent processed =
     (case get_dependencies e (world_of st) pkg of
        None \<Rightarrow> None
      | Some (w1, pkg1, Inl err) \<Rightarrow> Some (st\<lparr>world_of := w1\<rparr>, pkg1, Inl err)
      | Some (w1, pkg1, Inr deps) \<Rightarrow>
          (case walk_dependencies_loop n e (st\<lparr>world_of := w1\<rparr>) deps indent processed of
             None \<Rightarrow> None
           | Some (st2, r) \<Rightarrow> Some (st2, pkg1, r)))"
| "walk_dependencies_loop n e st [] indent processed = Some (st, Inr ())"
| "walk_dependencies_loop n e st (dep # rest) indent processed =
     (case scope' dep of
        None \<Rightarrow> Some (st, Inl AttributeError)
      | Some sc \<Rightarrow>
          if py_lower sc = ''compile'' \<and> \<not> optional' dep then
            (case py_set_contains e (world_of st) (get_set st processed) dep of
               (w1, s1, dep1, Inl err) \<Rightarrow>
                 Some (put_set (st\<lparr>world_of := w1\<rparr>) processed s1, Inl err)
             | (w1, s1, dep1, Inr found) \<Rightarrow>
                 if found then
                   walk_dependencies_loop n e (put_set (st\<lparr>world_of := w1\<rparr>) processed s1)
                     rest indent processed
                 else
                   (let st1 = put_set (st\<lparr>world_of := w1\<rparr>) processed s1
                    in case py_set_add e (world_of st1) (get_set st1 processed) dep1 of
                         (w3, s3, dep3, Inl err) \<Rightarrow>
                           Some (put_set (st1\<lparr>world_of := w3\<rparr>) processed s3, Inl err)
                       | (w3, s3, dep3, Inr u) \<Rightarrow>
                           (case walk_dependencies n e (put_set (st1\<lparr>world_of := w3\<rparr>) processed s3)
                                   dep3 (indent + 1) Default_set of
                              None \<Rightarrow> None
                            | Some (st4, dep4, Inl err) \<Rightarrow> Some (st4, Inl err)
                            | Some (st4, dep4, Inr u') \<Rightarrow>
                                walk_dependencies_loop n e st4 rest indent processed)))
          else walk_dependencies_loop n e st rest indent processed)"

definition walk_dependencies_of ::
  "nat \<Rightarrow> env \<Rightarrow> walk_state \<Rightarrow> 'a MavenPackage_scheme \<Rightarrow> nat \<Rightarrow> set_ref
     \<Rightarrow> (walk_state \<times> 'a MavenPackage_scheme \<times> (py_error + unit)) option" where
  "walk_dependencies_of fuel e st pkg indent processed =
     (case fuel of
        0 \<Rightarrow> None
      | Suc n \<Rightarrow>
          (case get_dependencies e (world_of st) pkg of
             None \<Rightarrow> None
           | Some (w1, pkg1, Inl err) \<Rightarrow> Some (st\<lparr>world_of := w1\<rparr>, pkg1, Inl err)
           | Some (w1, pkg1, Inr deps) \<Rightarrow>
               (case walk_dependencies_loop n e (st\<lparr>world_of := w1\<rparr>) deps indent processed of
                  None \<Rightarrow> None
                | Some (st2, r) \<Rightarrow> Some (st2, pkg1, r))))"

section \<open>Versions that need no resolution, and an example repository\<close>







text \<open>
  A second repository, for the walk: \<open>org.example:app:1.0\<close> depends on \<open>lib-a:lib-a:1.0\<close> and
  on \<open>lib-b:lib-b:1.0\<close>, and \<open>lib-a:lib-a:1.0\<close> depends on \<open>lib-b:lib-b:1.0\<close>, so that
  \<open>lib-b\<close> is reachable on two paths. Every dependency has the default scope. The walk
  starts as \<open>main\<close> starts it: with a fresh set that holds the root package, and with the
  default set still empty.
\<close>

definition walk_dependency :: "string \<Rightarrow> element" where
  "walk_dependency name =
     Element ''dependency'' None
       [Element ''groupId'' (Some name) [],
        Element ''artifactId'' (Some name) [],
        Element ''version'' (Some ''1.0'') []]"

definition walk_pom :: "string list \<Rightarrow> element" where
  "walk_pom names = Element ''project'' None [Element ''dependencies'' None (map walk_dependency names)]"

definition walk_env :: env where
  "walk_env =
     \<lparr>cwd = ''/work'',
      urlopen = (\<lambda>url.
        if url = ''https://repo1.maven.org/maven2/org/example/app/1.0/app-1.0.pom''
        then Body ''<project>app: lib-a, lib-b</project>''
        else if url = ''https://repo1.maven.org/maven2/lib-a/lib-a/1.0/lib-a-1.0.pom''
        then Body ''<project>lib-a: lib-b</project>''
        else if url = ''https://repo1.maven.org/maven2/lib-b/lib-b/1.0/lib-b-1.0.pom''
        then Body ''<project>lib-b</project>''
        else HTTP_failure),
      ET_fromstring = (\<lambda>s.
        if s = ''<project>app: lib-a, lib-b</project>'' then Some (walk_pom [''lib-a'', ''lib-b''])
        else if s = ''<project>lib-a: lib-b</project>'' then Some (walk_pom [''lib-b''])
        else if s = ''<project>lib-b</project>'' then Some (walk_pom [])
        else None),
      str_hash = (\<lambda>s. sum_list (map of_char s)),
      none_hash = 0\<rparr>"

definition walk_app :: MavenPackage where
  "walk_app =
     MavenPackage_init (MavenPackageMeta_init ''org.example'' ''app'' DEFAULT_REPO_BASE)
       (Some ''1.0'')"

definition walk_start :: walk_state where
  "walk_start =
     \<lparr>world_of = \<lparr>files = Map.empty, dirs = {}, requests = []\<rparr>,
      caller_set = [(py_hash_fold (py_hash_meta walk_env (meta walk_app)
                                   + str_hash walk_env ''1.0''), Package_object walk_app)],
      default_set = [],
      stdout = []\<rparr>"

definition walk_lib :: "string \<Rightarrow> MavenDependencyPackage" where
  "walk_lib name =
     MavenDependencyPackage_init (MavenPackageMeta_init name name DEFAULT_REPO_BASE) (Some ''1.0'')"

text \<open>The \<open>repr\<close> of the entries of a set, in insertion order.\<close>

definition py_set_reprs :: "py_set \<Rightarrow> string list" where
  "py_set_reprs s =
     map (\<lambda>(h, v). case v of
            Package_object p \<Rightarrow> MavenPackage_repr p
          | Dependency_object p \<Rightarrow> MavenPackage_repr p
          | Meta_object m \<Rightarrow> MavenPackageMeta_repr m
          | Other_object \<Rightarrow> ''object'') s"

section \<open>Facts about strings\<close>



section \<open>Placeholder substitution: what the loop guarantees\<close>

text \<open>Whatever the loop returns holds no \<open>${\<close>, when it was entered with \<open>idx\<close> the position of
  the first \<open>${\<close> of \<open>text\<close>.\<close>

lemma parse_property_loop_result:
  assumes "parse_property_loop properties text idx = Some y"
  shows "\<forall>r. y = Inr r \<longrightarrow> idx = py_find text ''${'' \<longrightarrow> py_find r ''${'' < 0"
  using assms
proof (rule parse_property_loop.raw_induct
    [rotated, where P = "\<lambda>ps s i y. \<forall>r. y = Inr r \<longrightarrow> i = py_find s ''${'' \<longrightarrow> py_find r ''${'' < 0"])
  fix loop ps s i y
  assume IH: "\<And>ps s i y. loop ps s i = Some y \<Longrightarrow>
      \<forall>r. y = Inr r \<longrightarrow> i = py_find s ''${'' \<longrightarrow> py_find r ''${'' < 0"
    and step: "(if 0 \<le> i then
        (let end = py_find s ''}'';
             name = py_slice s (i + 2) end;
             replacement = (case ps name of Some v \<Rightarrow> v | None \<Rightarrow> Some []);
             text_head = py_slice s 0 i;
             text_tail = py_slice_from s (end + 1)
         in case replacement of
              None \<Rightarrow> Some (Inl TypeError)
            | Some r \<Rightarrow>
                (let text' = text_head @ r @ text_tail
                 in loop ps text' (py_find text' ''${'')))
      else Some (Inr s)) = Some y"
  show "\<forall>r. y = Inr r \<longrightarrow> i = py_find s ''${'' \<longrightarrow> py_find r ''${'' < 0"
  proof (cases "0 \<le> i")
    case True
    with step show ?thesis
      by (auto simp: Let_def split: option.splits dest!: IH)
  next
    case False
    with step show ?thesis by auto
  qed
qed

text \<open>An iteration that leaves the text as it found it is repeated forever.\<close>

lemma parse_property_loop_stuck:
  assumes "0 \<le> i0"
    and "(case ps0 (py_slice s0 (i0 + 2) (py_find s0 ''}'')) of Some v \<Rightarrow> v | None \<Rightarrow> Some [])
         = Some v0"
    and "py_slice s0 0 i0 @ v0 @ py_slice_from s0 (py_find s0 ''}'' + 1) = s0"
    and "py_find s0 ''${'' = i0"
  shows "parse_property_loop ps0 s0 i0 = None"
proof (cases "parse_property_loop ps0 s0 i0")
  case None
  then show ?thesis .
next
  case (Some y)
  then have "\<not> (ps0 = ps0 \<and> s0 = s0 \<and> i0 = i0)"
  proof (rule parse_property_loop.raw_induct
      [rotated, where P = "\<lambda>ps s i y. \<not> (ps = ps0 \<and> s = s0 \<and> i = i0)"])
    fix loop ps s i y
    assume IH: "\<And>ps s i y. loop ps s i = Some y \<Longrightarrow> \<not> (ps = ps0 \<and> s = s0 \<and> i = i0)"
      and step: "(if 0 \<le> i then
          (let end = py_find s ''}'';
               name = py_slice s (i + 2) end;
               replacement = (case ps name of Some v \<Rightarrow> v | None \<Rightarrow> Some []);
               text_head = py_slice s 0 i;
               text_tail = py_slice_from s (end + 1)
           in case replacement of
                None \<Rightarrow> Some (Inl TypeError)
              | Some r \<Rightarrow>
                  (let text' = text_head @ r @ text_tail
                   in loop ps text' (py_find text' ''${'')))
        else Some (Inr s)) = Some y"
    show "\<not> (ps = ps0 \<and> s = s0 \<and> i = i0)"
    proof
      assume h: "ps = ps0 \<and> s = s0 \<and> i = i0"
      with step assms have "loop ps0 s0 i0 = Some y"
        by (simp add: Let_def)
      from IH [OF this] show False by simp
    qed
  qed
  then show ?thesis by simp
qed










text \<open>
  Claim C2 says that substitution pairs the leftmost \<open>${\<close> with the next \<open>}\<close> after it, never
  with a \<open>}\<close> that precedes it. The code searches for \<open>}\<close> from the start of the text. On the
  text \<open>}${x}\<close> it finds the \<open>}\<close> at position 0, before the \<open>${\<close> at position 1: the name is the
  empty slice, the head is \<open>}\<close>, the tail is everything after position 0, and the new text is
  the old one. The call never returns, where the claimed pairing would give \<open>}\<close>.
\<close>

theorem parse_property_value_closing_brace_first:
  "parse_property_value Map.empty ''}${x}'' = None"
  unfolding parse_property_value_def
  by (simp, rule parse_property_loop_stuck [where ?v0.0 = "[]"])
     (simp_all add: py_slice_def py_slice_from_def py_index_def)




section \<open>Substitution: the examples of the specification, and idempotence\<close>

text \<open>A declared name is replaced by its value, and an undeclared one by nothing.\<close>

theorem parse_property_value_examples:
  "parse_property_value [''x'' \<mapsto> Some ''1''] ''a${x}b'' = Some (Inr ''a1b'') \<and>
   parse_property_value Map.empty ''a${missing}b'' = Some (Inr ''ab'')"
  by code_simp

text \<open>Substituting again in a text that substitution returned changes nothing.\<close>

theorem parse_property_value_idempotent:
  assumes "parse_property_value properties s = Some (Inr r)"
  shows "parse_property_value properties r = Some (Inr r)"
proof -
  from assms have "parse_property_loop properties s (py_find s ''${'') = Some (Inr r)"
    by (simp add: parse_property_value_def)
  from parse_property_loop_result [OF this] have "py_find r ''${'' < 0"
    by simp
  then show ?thesis
    unfolding parse_property_value_def
    by (subst parse_property_loop.simps) simp
qed

theorem parse_property_value_idempotent_witness:
  "parse_property_value [''x'' \<mapsto> Some ''1''] ''a${x}b'' = Some (Inr ''a1b'') \<and>
   parse_property_value [''x'' \<mapsto> Some ''1''] ''a1b'' = Some (Inr ''a1b'')"
proof -
  have run: "parse_property_value [''x'' \<mapsto> Some ''1''] ''a${x}b'' = Some (Inr ''a1b'')"
    by code_simp
  from parse_property_value_idempotent [OF run] run show ?thesis
    by (rule_tac conjI)
qed

section \<open>Equality and hashing of MavenPackageMeta\<close>

text \<open>
  Claim C4 says that two \<open>MavenPackageMeta\<close> are equal exactly when their groups are equal. The
  coordinate \<open>org.apache.poi:poi-ooxml\<close> has the group of itself and is not equal to itself.
\<close>

theorem MavenPackageMeta_eq_not_group_equality:
  "\<not> (MavenPackageMeta_eq
         (MavenPackageMeta_init ''org.apache.poi'' ''poi-ooxml'' DEFAULT_REPO_BASE)
         (Meta_object (MavenPackageMeta_init ''org.apache.poi'' ''poi-ooxml'' DEFAULT_REPO_BASE))
       = (groupId (MavenPackageMeta_init ''org.apache.poi'' ''poi-ooxml'' DEFAULT_REPO_BASE)
          = groupId (MavenPackageMeta_init ''org.apache.poi'' ''poi-ooxml'' DEFAULT_REPO_BASE)))"
  by (simp add: MavenPackageMeta_eq_def MavenPackageMeta_init_def)

text \<open>
  Claim C4 as amended: \<open>a == b\<close> holds exactly when \<open>a.groupId\<close> and \<open>a.artifactId\<close> both equal
  \<open>b.groupId\<close>; \<open>b.artifactId\<close> is never read, and nothing but a \<open>MavenPackageMeta\<close> is equal
  to one.
\<close>

theorem MavenPackageMeta_eq_iff:
  "MavenPackageMeta_eq a v =
     (\<exists>b. v = Meta_object b \<and> groupId a = groupId b \<and> artifactId a = groupId b)"
  by (cases v) (auto simp: MavenPackageMeta_eq_def)

theorem MavenPackageMeta_eq_iff_witness:
  "MavenPackageMeta_eq (MavenPackageMeta_init ''g'' ''g'' DEFAULT_REPO_BASE)
     (Meta_object (MavenPackageMeta_init ''g'' ''x'' DEFAULT_REPO_BASE)) \<and>
   \<not> MavenPackageMeta_eq (MavenPackageMeta_init ''g'' ''x'' DEFAULT_REPO_BASE)
     (Meta_object (MavenPackageMeta_init ''g'' ''g'' DEFAULT_REPO_BASE)) \<and>
   \<not> MavenPackageMeta_eq (MavenPackageMeta_init ''g'' ''g'' DEFAULT_REPO_BASE) Other_object"
  using MavenPackageMeta_eq_iff [of "MavenPackageMeta_init ''g'' ''g'' DEFAULT_REPO_BASE"
      "Meta_object (MavenPackageMeta_init ''g'' ''x'' DEFAULT_REPO_BASE)"]
    MavenPackageMeta_eq_iff [of "MavenPackageMeta_init ''g'' ''x'' DEFAULT_REPO_BASE"
      "Meta_object (MavenPackageMeta_init ''g'' ''g'' DEFAULT_REPO_BASE)"]
    MavenPackageMeta_eq_iff [of "MavenPackageMeta_init ''g'' ''g'' DEFAULT_REPO_BASE" Other_object]
  by (simp add: MavenPackageMeta_init_def)

text \<open>
  Claim C5 says that equal values have equal hashes. \<open>MavenPackageMeta('g', 'g')\<close> is equal to
  \<open>MavenPackageMeta('g', 'x')\<close>, and their \<open>__hash__\<close> results are equal only if the strings
  \<open>g\<close> and \<open>x\<close> have the same hash.
\<close>

theorem MavenPackageMeta_equal_with_different_hash:
  "MavenPackageMeta_eq (MavenPackageMeta_init ''g'' ''g'' r)
     (Meta_object (MavenPackageMeta_init ''g'' ''x'' r)) \<and>
   (MavenPackageMeta_hash e (MavenPackageMeta_init ''g'' ''g'' r)
      = MavenPackageMeta_hash e (MavenPackageMeta_init ''g'' ''x'' r))
     = (str_hash e ''g'' = str_hash e ''x'')"
  by (simp add: MavenPackageMeta_eq_def MavenPackageMeta_hash_def MavenPackageMeta_init_def)

section \<open>The sanitizers\<close>

text \<open>
  Claim C7 says that for an input holding \<open>..\<close> the artifact and version sanitizers never
  output \<open>..\<close>. They remove \<open>..\<close> first and the separators afterwards: in \<open>.././.\<close> the
  first removal leaves \<open>/./.\<close>, and removing the slashes then leaves \<open>..\<close>.
\<close>

theorem quote_artifactId_path_outputs_dotdot:
  "sublist ''..'' ''.././.'' \<and>
   quote_artifactId_path ''.././.'' = ''..'' \<and>
   quote_version_path ''.././.'' = ''..''"
  by code_simp

text \<open>
  What the sanitizers do achieve, for every input. The group sanitizer outputs no dot at
  all, hence no \<open>..\<close>, and none of \<open>:\<close>, \<open>?\<close>, \<open>=\<close>.
\<close>

lemma py_replace_char_set: "set (py_replace [c] new s) \<subseteq> (set s - {c}) \<union> set new"
  by (induction s) auto

lemma sublist_dotdot_has_dot: "sublist ''..'' s \<Longrightarrow> CHR ''.'' \<in> set s"
  by (auto simp: sublist_def)

theorem quote_groupId_path_safe:
  "CHR ''.'' \<notin> set (quote_groupId_path g) \<and>
   CHR '':'' \<notin> set (quote_groupId_path g) \<and>
   CHR ''?'' \<notin> set (quote_groupId_path g) \<and>
   CHR ''='' \<notin> set (quote_groupId_path g) \<and>
   \<not> sublist ''..'' (quote_groupId_path g)"
proof -
  let ?a = "py_replace ''..'' [] g"
  let ?b = "py_replace ''.'' os_path_sep ?a"
  let ?c = "py_replace '':'' [] ?b"
  let ?d = "py_replace ''?'' [] ?c"
  let ?e = "py_replace ''='' [] ?d"
  have out: "quote_groupId_path g = ?e"
    by (simp add: quote_groupId_path_def Let_def)
  have b: "CHR ''.'' \<notin> set ?b"
    using py_replace_char_set [of "CHR ''.''" os_path_sep ?a] by (auto simp: os_path_sep_def)
  have c: "CHR ''.'' \<notin> set ?c \<and> CHR '':'' \<notin> set ?c"
    using py_replace_char_set [of "CHR '':''" "[]" ?b] b by auto
  have d: "CHR ''.'' \<notin> set ?d \<and> CHR '':'' \<notin> set ?d \<and> CHR ''?'' \<notin> set ?d"
    using py_replace_char_set [of "CHR ''?''" "[]" ?c] c by auto
  have e: "CHR ''.'' \<notin> set ?e \<and> CHR '':'' \<notin> set ?e \<and> CHR ''?'' \<notin> set ?e \<and> CHR ''='' \<notin> set ?e"
    using py_replace_char_set [of "CHR ''=''" "[]" ?d] d by auto
  with sublist_dotdot_has_dot [of ?e] show ?thesis
    unfolding out by blast
qed

text \<open>The artifact and version sanitizers output none of \<open>/\<close>, \<open>\\<close>, \<open>:\<close>, \<open>?\<close>, \<open>=\<close>.\<close>

theorem quote_artifactId_path_no_separators:
  "CHR ''/'' \<notin> set (quote_artifactId_path s) \<and> CHR 0x5C \<notin> set (quote_artifactId_path s) \<and>
   CHR '':'' \<notin> set (quote_artifactId_path s) \<and> CHR ''?'' \<notin> set (quote_artifactId_path s) \<and>
   CHR ''='' \<notin> set (quote_artifactId_path s) \<and>
   CHR ''/'' \<notin> set (quote_version_path s) \<and> CHR 0x5C \<notin> set (quote_version_path s) \<and>
   CHR '':'' \<notin> set (quote_version_path s) \<and> CHR ''?'' \<notin> set (quote_version_path s) \<and>
   CHR ''='' \<notin> set (quote_version_path s)"
proof -
  let ?a = "py_replace ''..'' [] s"
  let ?b = "py_replace ''/'' [] ?a"
  let ?b' = "py_replace [CHR 0x5C] [] ?b"
  let ?c = "py_replace '':'' [] ?b'"
  let ?d = "py_replace ''?'' [] ?c"
  let ?e = "py_replace ''='' [] ?d"
  have out: "quote_artifactId_path s = ?e" "quote_version_path s = ?e"
    by (simp_all add: quote_artifactId_path_def quote_version_path_def Let_def)
  have b: "CHR ''/'' \<notin> set ?b"
    using py_replace_char_set [of "CHR ''/''" "[]" ?a] by auto
  have b': "CHR ''/'' \<notin> set ?b' \<and> CHR 0x5C \<notin> set ?b'"
    using py_replace_char_set [of "CHR 0x5C" "[]" ?b] b by auto
  have c: "CHR ''/'' \<notin> set ?c \<and> CHR 0x5C \<notin> set ?c \<and> CHR '':'' \<notin> set ?c"
    using py_replace_char_set [of "CHR '':''" "[]" ?b'] b' by auto
  have d: "CHR ''/'' \<notin> set ?d \<and> CHR 0x5C \<notin> set ?d \<and> CHR '':'' \<notin> set ?d \<and> CHR ''?'' \<notin> set ?d"
    using py_replace_char_set [of "CHR ''?''" "[]" ?c] c by auto
  have e: "CHR ''/'' \<notin> set ?e \<and> CHR 0x5C \<notin> set ?e \<and> CHR '':'' \<notin> set ?e \<and> CHR ''?'' \<notin> set ?e
      \<and> CHR ''='' \<notin> set ?e"
    using py_replace_char_set [of "CHR ''=''" "[]" ?d] d by auto
  then show ?thesis
    unfolding out by blast
qed

section \<open>asDependencyPackage\<close>

text \<open>
  Claim C10: for every package and every choice of \<open>optional\<close> and \<open>scope\<close>,
  \<open>asDependencyPackage\<close> returns \<open>None\<close>; the package it builds is dropped.
\<close>

theorem asDependencyPackage_returns_None:
  "asDependencyPackage self opt sc = None"
  by (simp add: asDependencyPackage_def Let_def)

section \<open>Resolved versions and URLs\<close>










section \<open>cache_jar\<close>




section \<open>Version inheritance in get_dependencies\<close>








section \<open>The dependency walk\<close>

text \<open>
  Claim C1 says that the walk adds every eligible dependency to the one visited set the
  caller seeded, and so expands a coordinate that is reachable on two paths only on its
  first encounter. The recursive call passes no \<open>processed\<close>: beneath the root the walk works
  on the default set of the function. In the example \<open>lib-b\<close> is met first beneath
  \<open>lib-a\<close>, where it is printed (indented), stored in the default set and expanded; then
  it is met as a dependency of the root, where the caller's set does not hold it, and it
  is printed, stored and expanded again. \<open>walk_dependencies\<close> stores it in both sets in the
  same way.
\<close>

theorem dump_dependencies_expands_twice:
  "(case dump_dependencies_of 3 walk_env walk_start walk_app 0 Caller_set of
      Some (st, pkg, r) \<Rightarrow>
        Some (r, stdout st, py_set_reprs (caller_set st), py_set_reprs (default_set st))
    | None \<Rightarrow> None)
   = Some (Inr (),
       [MavenPackage_repr (walk_lib ''lib-a''),
        ''    '' @ MavenPackage_repr (walk_lib ''lib-b''),
        MavenPackage_repr (walk_lib ''lib-b'')],
       [MavenPackage_repr walk_app, MavenPackage_repr (walk_lib ''lib-a''),
        MavenPackage_repr (walk_lib ''lib-b'')],
       [MavenPackage_repr (walk_lib ''lib-b'')]) \<and>
   (case walk_dependencies_of 3 walk_env walk_start walk_app 0 Caller_set of
      Some (st, pkg, r) \<Rightarrow>
        Some (r, py_set_reprs (caller_set st), py_set_reprs (default_set st))
    | None \<Rightarrow> None)
   = Some (Inr (),
       [MavenPackage_repr walk_app, MavenPackage_repr (walk_lib ''lib-a''),
        MavenPackage_repr (walk_lib ''lib-b'')],
       [MavenPackage_repr (walk_lib ''lib-b'')])"
  by code_simp

text \<open>
  The eligibility filter: a dependency whose scope is not \<open>compile\<close> in any spelling of its
  letters, or that is optional, is passed over; neither set, nor the output, nor the
  network is touched.
\<close>

theorem ineligible_dependency_is_skipped:
  assumes "scope' dep = Some sc" and "py_lower sc \<noteq> ''compile'' \<or> optional' dep"
  shows "dump_dependencies_loop n e st (dep # rest) indent processed
           = dump_dependencies_loop n e st rest indent processed \<and>
         walk_dependencies_loop n e st (dep # rest) indent processed
           = walk_dependencies_loop n e st rest indent processed"
  using assms by auto

theorem ineligible_dependency_is_skipped_witness:
  "py_lower ''PROVIDED'' \<noteq> ''compile'' \<and>
   dump_dependencies_loop 0 walk_env walk_start
     [(walk_lib ''lib-a'')\<lparr>scope' := Some ''PROVIDED''\<rparr>,
      (walk_lib ''lib-b'')\<lparr>optional' := True\<rparr>] 0 Caller_set
     = Some (walk_start, Inr ())"
proof -
  have scope: "py_lower ''PROVIDED'' \<noteq> ''compile''"
    by code_simp
  have s1: "scope' ((walk_lib ''lib-a'')\<lparr>scope' := Some ''PROVIDED''\<rparr>) = Some ''PROVIDED''"
    by simp
  have s2: "scope' ((walk_lib ''lib-b'')\<lparr>optional' := True\<rparr>) = Some ''compile''"
    "optional' ((walk_lib ''lib-b'')\<lparr>optional' := True\<rparr>)"
    by (simp_all add: walk_lib_def MavenDependencyPackage_init_def DEFAULT_SCOPE_def)
  note first = ineligible_dependency_is_skipped [OF s1 disjI1 [OF scope], THEN conjunct1]
  note second = ineligible_dependency_is_skipped [OF s2(1) disjI2 [OF s2(2)], THEN conjunct1]
  show ?thesis
    by (intro conjI scope) (simp only: first second dump_dependencies_loop.simps(1))
qed

end
